theory Spec2Isabelle
  imports Main "HOL-Library.Word"
begin

section \<open>Format registry\<close>

text \<open>
  The numeric format tags of \<^verbatim>\<open>SIZES\<close> and \<^verbatim>\<open>FORMAT_MAP\<close>. Both dictionaries have
  the same ten keys, so the lookups are total functions on the tags.
\<close>

datatype format = U8 | U16 | U32 | U8VEC4 | U16VEC2 | VEC2 | VEC3 | VEC4 | MAT3 | MAT4

datatype dtype = Int8 | Int16 | Int32 | Single

fun SIZES :: "format \<Rightarrow> nat" where
  "SIZES U8 = 1"
| "SIZES U16 = 2"
| "SIZES U32 = 4"
| "SIZES U8VEC4 = 4"
| "SIZES U16VEC2 = 4"
| "SIZES VEC2 = 8"
| "SIZES VEC3 = 12"
| "SIZES VEC4 = 16"
| "SIZES MAT3 = 36"
| "SIZES MAT4 = 64"

fun FORMAT_MAP :: "format \<Rightarrow> dtype" where
  "FORMAT_MAP U8 = Int8"
| "FORMAT_MAP U16 = Int16"
| "FORMAT_MAP U32 = Int32"
| "FORMAT_MAP U8VEC4 = Int8"
| "FORMAT_MAP U16VEC2 = Int16"
| "FORMAT_MAP VEC2 = Single"
| "FORMAT_MAP VEC3 = Single"
| "FORMAT_MAP VEC4 = Single"
| "FORMAT_MAP MAT3 = Single"
| "FORMAT_MAP MAT4 = Single"

text \<open>Bytes per element of a numpy dtype (\<^verbatim>\<open>dtype.itemsize\<close>).\<close>

fun itemsize :: "dtype \<Rightarrow> nat" where
  "itemsize Int8 = 1"
| "itemsize Int16 = 2"
| "itemsize Int32 = 4"
| "itemsize Single = 4"

text \<open>\<^verbatim>\<open>get_format\<close>: the index format for a vertex count (a Python int).\<close>

definition get_format :: "int \<Rightarrow> format" where
  "get_format num_vertices =
     (if num_vertices < 256 then U8
      else if num_vertices < 65536 then U16
      else U32)"

section \<open>Python values\<close>

text \<open>
  A Python float is an IEEE-754 binary64 value, modelled by its bit pattern. The integers
  of Python are unbounded. \<^verbatim>\<open>ndarray.tolist()\<close> returns floats for a float32 array and
  ints for an integer array, so decoded values are of either kind.
\<close>

type_synonym pyfloat = "64 word"

datatype pynum = PyInt int | PyFloat pyfloat

text \<open>
  The exceptions of the source and of its numpy calls. \<^verbatim>\<open>ShapeMismatch\<close> and \<^verbatim>\<open>CorruptBuffer\<close>
  are the error kinds that the specification names; no statement of the source raises them.
\<close>

datatype error = IndexError | ValueError | OverflowError | ShapeMismatch | CorruptBuffer

definition float_zero :: pyfloat where
  "float_zero = 0"

definition float_one :: pyfloat where
  "float_one = 0x3FF0000000000000"

section \<open>The attribute layout planner\<close>

datatype semantic = POSITION | NORMAL | TANGENT | TEXTURE | COLOR

text \<open>
  \<^verbatim>\<open>AttributeInput\<close> is constructed with semantic, format and normalized only; offset and
  stride are unset (\<open>None\<close>) until \<^verbatim>\<open>set_up_attributes\<close> assigns them.
\<close>

record attribute_input =
  semantic :: semantic
  format :: format
  normalized :: bool
  offset :: "nat option"
  stride :: "nat option"

text \<open>
  \<^verbatim>\<open>GeometryPatchInput\<close>: vertices and indices are required lists, the other four streams
  are optional. Every per-vertex stream is a list of tuples of Python numbers, the index
  stream is a list of groups of Python numbers.
\<close>

record geometry_patch_input =
  vertices :: "pynum list list"
  indices :: "pynum list list"
  index_type :: string
  material :: nat
  normals :: "pynum list list option"
  tangents :: "pynum list list option"
  textures :: "pynum list list option"
  colors :: "pynum list list option"

text \<open>Python truth value of an optional list: \<open>None\<close> and the empty list are false.\<close>

fun truthy :: "'a list option \<Rightarrow> bool" where
  "truthy None = False"
| "truthy (Some xs) = (xs \<noteq> [])"

definition AttributeInput :: "semantic \<Rightarrow> format \<Rightarrow> bool \<Rightarrow> attribute_input" where
  "AttributeInput s f n =
     \<lparr>semantic = s, format = f, normalized = n, offset = None, stride = None\<rparr>"

text \<open>
  The first loop of \<^verbatim>\<open>set_up_attributes\<close>: store the running offset in each attribute and
  advance it by the size of the attribute's format. The final offset is returned with the
  updated list.
\<close>

fun assign_offsets :: "nat \<Rightarrow> attribute_input list \<Rightarrow> attribute_input list \<times> nat" where
  "assign_offsets off [] = ([], off)"
| "assign_offsets off (a # as) =
     (let (as', final) = assign_offsets (off + SIZES (format a)) as
      in (a\<lparr>offset := Some off\<rparr> # as', final))"

definition set_up_attributes :: "geometry_patch_input \<Rightarrow> attribute_input list" where
  "set_up_attributes inp =
     (let attribute_info =
            [AttributeInput POSITION VEC3 False]
            @ (if truthy (normals inp) then [AttributeInput NORMAL VEC3 False] else [])
            @ (if truthy (tangents inp) then [AttributeInput TANGENT VEC3 False] else [])
            @ (if truthy (textures inp) then [AttributeInput TEXTURE U16VEC2 True] else [])
            @ (if truthy (colors inp) then [AttributeInput COLOR U8VEC4 True] else []);
          (attribute_info', off) = assign_offsets 0 attribute_info
      in map (\<lambda>a. a\<lparr>stride := Some off\<rparr>) attribute_info')"

section \<open>The instance builder\<close>

definition DEFAULT_POSITION :: "pynum list" where
  "DEFAULT_POSITION = [PyFloat float_zero, PyFloat float_zero, PyFloat float_zero, PyFloat float_zero]"

definition DEFAULT_COLOR :: "pynum list" where
  "DEFAULT_COLOR = [PyFloat float_one, PyFloat float_one, PyFloat float_one, PyFloat float_one]"

definition DEFAULT_ROTATION :: "pynum list" where
  "DEFAULT_ROTATION = [PyFloat float_zero, PyFloat float_zero, PyFloat float_zero, PyFloat float_zero]"

definition DEFAULT_SCALE :: "pynum list" where
  "DEFAULT_SCALE = [PyFloat float_one, PyFloat float_one, PyFloat float_one, PyFloat float_zero]"

definition padded :: "pynum list \<Rightarrow> pynum list" where
  "padded lst =
     (if length lst < 4 then lst @ replicate (4 - length lst) (PyFloat float_zero) else lst)"

text \<open>
  \<^verbatim>\<open>create_instances\<close>: the loop over \<^verbatim>\<open>range(num_instances)\<close> extends the result by four
  groups per instance.
\<close>

definition create_instances ::
  "pynum list list \<Rightarrow> pynum list list \<Rightarrow> pynum list list \<Rightarrow> pynum list list
   \<Rightarrow> pynum list list" where
  "create_instances positions0 colors0 rotations scales =
     (let positions =
            (if \<not> (positions0 \<noteq> [] \<or> colors0 \<noteq> [] \<or> rotations \<noteq> [] \<or> scales \<noteq> [])
             then [DEFAULT_POSITION] else positions0);
          num_instances =
            max (length positions) (max (length colors0) (max (length rotations) (length scales)))
      in concat (map (\<lambda>i.
           [if i < length positions then padded (positions ! i) else DEFAULT_POSITION,
            if i < length colors0 then padded (colors0 ! i) else DEFAULT_COLOR,
            if i < length rotations then padded (rotations ! i) else DEFAULT_ROTATION,
            if i < length scales then padded (scales ! i) else DEFAULT_SCALE])
           [0..<num_instances]))"

section \<open>numpy: element conversion and raw bytes\<close>

type_synonym byte = "8 word"

text \<open>The \<open>n\<close> low bytes of a natural number, least significant first, and back.\<close>

definition le_bytes :: "nat \<Rightarrow> nat \<Rightarrow> byte list" where
  "le_bytes n v = map (\<lambda>k. word_of_nat (v div 256 ^ k)) [0..<n]"

fun le_nat :: "byte list \<Rightarrow> nat" where
  "le_nat [] = 0"
| "le_nat (b # bs) = unat b + 256 * le_nat bs"

fun ilog2 :: "nat \<Rightarrow> nat" where
  "ilog2 n = (if n < 2 then 0 else Suc (ilog2 (n div 2)))"

declare ilog2.simps [simp del]

text \<open>Drop the \<open>sh\<close> low bits of \<open>M\<close>, rounding to nearest, ties to even.\<close>

definition round_half_even :: "nat \<Rightarrow> nat \<Rightarrow> nat" where
  "round_half_even M sh =
     (if sh = 0 then M
      else let q = M div 2 ^ sh; r = M mod 2 ^ sh; h = 2 ^ (sh - 1)
           in if h < r \<or> (r = h \<and> odd q) then q + 1 else q)"

text \<open>
  The C cast from double to float that numpy applies to each element stored in a float32
  array (round to nearest even; overflow gives infinity; NaN stays a quiet NaN), on bit
  patterns.
\<close>

definition f64_to_f32 :: "64 word \<Rightarrow> 32 word" where
  "f64_to_f32 d =
     (let x = unat d; s = x div 2 ^ 63; e = (x div 2 ^ 52) mod 2 ^ 11; m = x mod 2 ^ 52
      in if e = 2047 then
           (if m = 0 then word_of_nat (s * 2 ^ 31 + 0x7F800000)
            else word_of_nat (s * 2 ^ 31 + 0x7FC00000 + (m div 2 ^ 29) mod 2 ^ 22))
         else
           let M = (if e = 0 then m else 2 ^ 52 + m);
               e1 = max e 1;
               mag = (if 897 \<le> e1 then (e1 - 897) * 2 ^ 23 + round_half_even M 29
                      else round_half_even M (926 - e1))
           in word_of_nat (s * 2 ^ 31 + min mag 0x7F800000))"

text \<open>The exact widening of a float32 element to a Python float (\<^verbatim>\<open>tolist()\<close>).\<close>

definition f32_to_f64 :: "32 word \<Rightarrow> 64 word" where
  "f32_to_f64 w =
     (let x = unat w; s = x div 2 ^ 31; e = (x div 2 ^ 23) mod 2 ^ 8; f = x mod 2 ^ 23
      in if e = 255 then word_of_nat (s * 2 ^ 63 + 0x7FF0000000000000 + f * 2 ^ 29)
         else if e = 0 then
           (if f = 0 then word_of_nat (s * 2 ^ 63)
            else let h = ilog2 f
                 in word_of_nat (s * 2 ^ 63 + (h + 874) * 2 ^ 52 + (f * 2 ^ (52 - h)) mod 2 ^ 52))
         else word_of_nat (s * 2 ^ 63 + (e + 896) * 2 ^ 52 + f * 2 ^ 29))"

text \<open>Python's \<^verbatim>\<open>int(x)\<close> of a float: truncation towards zero; it raises on NaN and infinity.\<close>

definition py_int_of_float :: "pyfloat \<Rightarrow> error + int" where
  "py_int_of_float d =
     (let x = unat d; s = x div 2 ^ 63; e = (x div 2 ^ 52) mod 2 ^ 11; m = x mod 2 ^ 52
      in if e = 2047 then (if m = 0 then Inl OverflowError else Inl ValueError)
         else
           let M = (if e = 0 then m else 2 ^ 52 + m);
               e1 = max e 1;
               mag = (if 1075 \<le> e1 then M * 2 ^ (e1 - 1075) else M div 2 ^ (1075 - e1))
           in Inr (if s = 1 then - int mag else int mag))"

text \<open>
  Python's \<^verbatim>\<open>float(v)\<close> of an int: the nearest double, ties to even; it raises
  \<^verbatim>\<open>OverflowError\<close> when the result would not be finite.
\<close>

definition py_float_of_int :: "int \<Rightarrow> error + pyfloat" where
  "py_float_of_int v =
     (if v = 0 then Inr 0
      else let a = nat \<bar>v\<bar>; h = ilog2 a; s = (if v < 0 then 1 else 0);
               mag = (if h \<le> 52 then (h + 1022) * 2 ^ 52 + a * 2 ^ (52 - h)
                      else (h + 1022) * 2 ^ 52 + round_half_even a (h - 52))
           in if 0x7FF0000000000000 \<le> mag then Inl OverflowError
              else Inr (word_of_nat (s * 2 ^ 63 + mag)))"

text \<open>
  What numpy 1.x, the numpy of this code, stores for one Python number in an array of a
  given dtype. For an integer dtype the number goes through \<^verbatim>\<open>int()\<close> and a C long
  (64 bits), and the cast to the narrower type keeps the low bits; numpy 2 raises
  \<^verbatim>\<open>OverflowError\<close> for a Python int outside the range of the type instead. For float32
  the number goes through a double.
\<close>

fun to_long :: "pynum \<Rightarrow> error + int" where
  "to_long (PyInt v) = (if - (2 ^ 63) \<le> v \<and> v < 2 ^ 63 then Inr v else Inl OverflowError)"
| "to_long (PyFloat d) =
     (case py_int_of_float d of
        Inl e \<Rightarrow> Inl e
      | Inr v \<Rightarrow> if - (2 ^ 63) \<le> v \<and> v < 2 ^ 63 then Inr v else Inl OverflowError)"

fun to_double :: "pynum \<Rightarrow> error + pyfloat" where
  "to_double (PyFloat d) = Inr d"
| "to_double (PyInt v) = py_float_of_int v"

fun item_bytes :: "dtype \<Rightarrow> pynum \<Rightarrow> error + byte list" where
  "item_bytes Single x =
     (case to_double x of
        Inl e \<Rightarrow> Inl e
      | Inr d \<Rightarrow> Inr (le_bytes 4 (unat (f64_to_f32 d))))"
| "item_bytes dt x =
     (case to_long x of
        Inl e \<Rightarrow> Inl e
      | Inr v \<Rightarrow> Inr (le_bytes (itemsize dt) (nat (v mod 2 ^ (8 * itemsize dt)))))"

text \<open>
  Serialising a list of items into one byte string; the first failing item raises.
  The same shape serves the elements of an array, the attributes of a vertex and the
  vertices of a stream.
\<close>

fun collect :: "('a \<Rightarrow> error + byte list) \<Rightarrow> 'a list \<Rightarrow> error + byte list" where
  "collect f [] = Inr []"
| "collect f (x # xs) =
     (case f x of
        Inl e \<Rightarrow> Inl e
      | Inr bs \<Rightarrow> (case collect f xs of Inl e \<Rightarrow> Inl e | Inr bs' \<Rightarrow> Inr (bs @ bs')))"

text \<open>\<^verbatim>\<open>np.array(info, dtype=dt).tobytes(order='C')\<close> for a flat list of numbers.\<close>

definition np_tobytes :: "dtype \<Rightarrow> pynum list \<Rightarrow> error + byte list" where
  "np_tobytes dt info = collect (item_bytes dt) info"

text \<open>
  The same for a list of groups: numpy refuses groups of unequal length
  (\<^verbatim>\<open>ValueError\<close>), otherwise the rows are laid out one after the other.
\<close>

definition np_tobytes2 :: "dtype \<Rightarrow> pynum list list \<Rightarrow> error + byte list" where
  "np_tobytes2 dt groups =
     (if \<exists>g \<in> set groups. length g \<noteq> length (hd groups) then Inl ValueError
      else collect (item_bytes dt) (concat groups))"

text \<open>The value of a dtype's raw element: signed two's complement, or a float32.\<close>

definition signed_of :: "nat \<Rightarrow> nat \<Rightarrow> int" where
  "signed_of bits x = (if x < 2 ^ (bits - 1) then int x else int x - 2 ^ bits)"

fun decode_item :: "dtype \<Rightarrow> byte list \<Rightarrow> pynum" where
  "decode_item Single bs = PyFloat (f32_to_f64 (word_of_nat (le_nat bs)))"
| "decode_item dt bs = PyInt (signed_of (8 * itemsize dt) (le_nat bs))"

lemma itemsize_pos: "0 < itemsize dt"
  by (cases dt) simp_all

function decode_items :: "dtype \<Rightarrow> byte list \<Rightarrow> pynum list" where
  "decode_items dt bs =
     (if length bs < itemsize dt then []
      else decode_item dt (take (itemsize dt) bs) # decode_items dt (drop (itemsize dt) bs))"
  by pat_completeness auto
termination
proof (relation "measure (\<lambda>(dt, bs). length bs)")
  show "wf (measure (\<lambda>(dt, bs). length bs))"
    by simp
next
  fix dt :: dtype and bs :: "byte list"
  assume "\<not> length bs < itemsize dt"
  with itemsize_pos [of dt]
  show "((dt, drop (itemsize dt) bs), (dt, bs)) \<in> measure (\<lambda>(dt, bs). length bs)"
    by simp
qed

declare decode_items.simps [simp del]

text \<open>
  \<^verbatim>\<open>np.frombuffer(bs, dtype=dt, count=count, offset=off).tolist()\<close>. A negative count (the
  default is -1) reads everything after the offset, which must then be a whole number of
  elements.
\<close>

definition np_frombuffer :: "byte list \<Rightarrow> dtype \<Rightarrow> int \<Rightarrow> nat \<Rightarrow> error + pynum list" where
  "np_frombuffer bs dt count off =
     (if length bs < off then Inl ValueError
      else let s = length bs - off
           in if count < 0 then
                (if s mod itemsize dt \<noteq> 0 then Inl ValueError
                 else Inr (decode_items dt (drop off bs)))
              else if s < nat count * itemsize dt then Inl ValueError
              else Inr (decode_items dt (take (nat count * itemsize dt) (drop off bs))))"

section \<open>The interleaved buffer encoder\<close>

text \<open>
  The components that the source creates on the server. Identifiers and the buffer view
  belong to the component store and are left out; the buffer that
  \<^verbatim>\<open>build_geometry_buffer\<close> creates is returned with the patch.
\<close>

record buffer =
  buffer_name :: string
  buffer_size :: nat
  inline_bytes :: "byte list"

record index =
  ix_count :: nat
  ix_offset :: nat
  ix_format :: format

record geometry_patch =
  patch_attributes :: "attribute_input list"
  vertex_count :: nat
  patch_indices :: index
  patch_type :: string
  patch_material :: nat

text \<open>Python's \<^verbatim>\<open>zip(*data)\<close>: nothing for no stream, else tuples up to the shortest stream.\<close>

definition py_zip :: "'a list list \<Rightarrow> 'a list list" where
  "py_zip data =
     (if data = [] then []
      else map (\<lambda>i. map (\<lambda>xs. xs ! i) data) [0..<Min (set (map length data))])"

text \<open>An optional stream as the list that the comprehension's filter sees.\<close>

fun stream :: "'a list option \<Rightarrow> 'a list" where
  "stream None = []"
| "stream (Some xs) = xs"

definition encode_attr :: "pynum list \<times> attribute_input \<Rightarrow> error + byte list" where
  "encode_attr p = (case p of (info, attr) \<Rightarrow> np_tobytes (FORMAT_MAP (format attr)) info)"

definition encode_point :: "attribute_input list \<Rightarrow> pynum list list \<Rightarrow> error + byte list" where
  "encode_point attribute_info point = collect encode_attr (zip point attribute_info)"

text \<open>
  The first part of \<^verbatim>\<open>build_geometry_buffer\<close>: the non-empty streams are zipped into
  points, and every point is written attribute by attribute.
\<close>

definition present_streams :: "geometry_patch_input \<Rightarrow> pynum list list list" where
  "present_streams inp =
     filter (\<lambda>x. x \<noteq> [])
       [vertices inp, stream (normals inp), stream (tangents inp),
        stream (textures inp), stream (colors inp)]"

definition vertex_section ::
  "geometry_patch_input \<Rightarrow> attribute_input list \<Rightarrow> error + byte list" where
  "vertex_section inp attribute_info =
     (let data = present_streams inp;
          points = py_zip data
      in collect (encode_point attribute_info) points)"

definition build_geometry_buffer ::
  "string \<Rightarrow> geometry_patch_input \<Rightarrow> format \<Rightarrow> attribute_input list
   \<Rightarrow> error + (buffer \<times> nat)" where
  "build_geometry_buffer name inp index_format attribute_info =
     (case vertex_section inp attribute_info of
            Inl e \<Rightarrow> Inl e
          | Inr buffer_bytes \<Rightarrow>
              (let index_offset = length buffer_bytes
               in (case np_tobytes2 (FORMAT_MAP index_format) (indices inp) of
                     Inl e \<Rightarrow> Inl e
                   | Inr index_bytes \<Rightarrow>
                       (let buffer_bytes' = buffer_bytes @ index_bytes;
                            size = length buffer_bytes'
                        in if size > 1000 then
                             Inr (\<lparr>buffer_name = name, buffer_size = size,
                                   inline_bytes = buffer_bytes'\<rparr>, index_offset)
                           else
                             Inr (\<lparr>buffer_name = name, buffer_size = size,
                                   inline_bytes = buffer_bytes'\<rparr>, index_offset)))))"

text \<open>\<^verbatim>\<open>build_geometry_patch\<close>; \<^verbatim>\<open>input.indices[0]\<close> raises on an empty index list.\<close>

definition build_geometry_patch ::
  "string \<Rightarrow> geometry_patch_input \<Rightarrow> error + (geometry_patch \<times> buffer)" where
  "build_geometry_patch name inp =
     (let vert_count = length (vertices inp)
      in (case indices inp of
            [] \<Rightarrow> Inl IndexError
          | g # _ \<Rightarrow>
              (let index_count = length (indices inp) * length g;
                   index_format = get_format (int vert_count);
                   attribute_info = set_up_attributes inp
               in (case build_geometry_buffer name inp index_format attribute_info of
                     Inl e \<Rightarrow> Inl e
                   | Inr (buffer, index_offset) \<Rightarrow>
                       Inr (\<lparr>patch_attributes = attribute_info,
                             vertex_count = vert_count,
                             patch_indices = \<lparr>ix_count = index_count,
                                               ix_offset = index_offset,
                                               ix_format = index_format\<rparr>,
                             patch_type = index_type inp,
                             patch_material = material inp\<rparr>, buffer)))))"

section \<open>The buffer decoder\<close>

text \<open>
  What \<^verbatim>\<open>export_mesh\<close> hands to the mesh writer: the points, the index groups and the
  other attributes by semantic.
\<close>

record mesh_data =
  points :: "pynum list list"
  triangles :: "pynum list list"
  point_data :: "semantic \<Rightarrow> pynum list list option"

text \<open>\<^verbatim>\<open>zip(*(iter(raw_indices),) * 3)\<close>: consecutive groups of three; a remainder is dropped.\<close>

fun group3 :: "'a list \<Rightarrow> 'a list list" where
  "group3 (a # b # c # rest) = [a, b, c] # group3 rest"
| "group3 _ = []"

text \<open>The body of the inner loop: one attribute read at position \<open>i\<close>.\<close>

definition read_attribute ::
  "attribute_input \<Rightarrow> byte list \<Rightarrow> nat \<times> mesh_data \<Rightarrow> error + (nat \<times> mesh_data)" where
  "read_attribute attribute attribute_bytes st =
     (case st of (i, m) \<Rightarrow>
        let fmt = format attribute;
            current_chunk = take (SIZES fmt) (drop i attribute_bytes);
            attr_name = semantic attribute
        in (case np_frombuffer current_chunk (FORMAT_MAP fmt) (- 1) 0 of
              Inl e \<Rightarrow> Inl e
            | Inr attr_data \<Rightarrow>
                Inr (i + SIZES fmt,
                     if attr_name = POSITION then m\<lparr>points := points m @ [attr_data]\<rparr>
                     else m\<lparr>point_data := (point_data m)
                            (attr_name \<mapsto>
                               (case point_data m attr_name of None \<Rightarrow> [] | Some l \<Rightarrow> l)
                               @ [attr_data])\<rparr>)))"

fun read_record ::
  "attribute_input list \<Rightarrow> byte list \<Rightarrow> nat \<times> mesh_data \<Rightarrow> error + (nat \<times> mesh_data)" where
  "read_record [] attribute_bytes st = Inr st"
| "read_record (a # as) attribute_bytes st =
     (case read_attribute a attribute_bytes st of
        Inl e \<Rightarrow> Inl e
      | Inr st' \<Rightarrow> read_record as attribute_bytes st')"

text \<open>
  The \<^verbatim>\<open>while i < len(attribute_bytes)\<close> loop. It does not advance when the patch has no
  attributes, so it need not return: \<open>None\<close> is the loop that runs forever.
\<close>

partial_function (option) read_records ::
  "attribute_input list \<Rightarrow> byte list \<Rightarrow> nat \<times> mesh_data \<Rightarrow> (error + mesh_data) option" where
  "read_records attrs attribute_bytes st =
     (if fst st < length attribute_bytes then
        (case read_record attrs attribute_bytes st of
           Inl e \<Rightarrow> Some (Inl e)
         | Inr st' \<Rightarrow> read_records attrs attribute_bytes st')
      else Some (Inr (snd st)))"

declare read_records.simps [code]

text \<open>
  One iteration of the loop over \<^verbatim>\<open>geometry.patches\<close>; the patch comes with the bytes of
  the buffer that its index view points to.
\<close>

definition export_patch ::
  "geometry_patch \<times> byte list \<Rightarrow> mesh_data \<Rightarrow> (error + mesh_data) option" where
  "export_patch pb m =
     (case pb of (patch, bytes) \<Rightarrow>
        let index = patch_indices patch
        in (case np_frombuffer bytes (FORMAT_MAP (ix_format index))
                   (int (ix_count index)) (ix_offset index) of
              Inl e \<Rightarrow> Some (Inl e)
            | Inr raw_indices \<Rightarrow>
                (let grouped = group3 raw_indices;
                     m' = m\<lparr>triangles := triangles m @ grouped\<rparr>;
                     attribute_bytes = take (ix_offset index) bytes
                 in read_records (patch_attributes patch) attribute_bytes (0, m'))))"



section \<open>Streams cut to the shortest one\<close>

text \<open>
  The length of the shortest of the zipped streams, and an input whose per-vertex streams
  are all cut to a given length. They state what the encoder does with streams of unequal
  length.
\<close>

definition shortest :: "'a list list \<Rightarrow> nat" where
  "shortest data = (if data = [] then 0 else Min (set (map length data)))"

definition truncate_streams :: "nat \<Rightarrow> geometry_patch_input \<Rightarrow> geometry_patch_input" where
  "truncate_streams k inp =
     inp\<lparr>vertices := take k (vertices inp),
         normals := map_option (take k) (normals inp),
         tangents := map_option (take k) (tangents inp),
         textures := map_option (take k) (textures inp),
         colors := map_option (take k) (colors inp)\<rparr>"

section \<open>Exact values and the effect of decoding\<close>












section \<open>The format selector, the planner and the instance builder\<close>

text \<open>The layout for each combination of present streams, with offsets and stride.\<close>

lemma set_up_attributes_cases:
  "set_up_attributes inp =
     (let n = truthy (normals inp); t = truthy (tangents inp); x = truthy (textures inp);
          c = truthy (colors inp);
          o1 = 12; o2 = o1 + (if n then 12 else 0); o3 = o2 + (if t then 12 else 0);
          o4 = o3 + (if x then 4 else 0); o5 = o4 + (if c then 4 else 0)
      in [\<lparr>semantic = POSITION, format = VEC3, normalized = False,
            offset = Some 0, stride = Some o5\<rparr>]
         @ (if n then [\<lparr>semantic = NORMAL, format = VEC3, normalized = False,
                         offset = Some o1, stride = Some o5\<rparr>] else [])
         @ (if t then [\<lparr>semantic = TANGENT, format = VEC3, normalized = False,
                         offset = Some o2, stride = Some o5\<rparr>] else [])
         @ (if x then [\<lparr>semantic = TEXTURE, format = U16VEC2, normalized = True,
                         offset = Some o3, stride = Some o5\<rparr>] else [])
         @ (if c then [\<lparr>semantic = COLOR, format = U8VEC4, normalized = True,
                         offset = Some o4, stride = Some o5\<rparr>] else []))"
  by (simp add: set_up_attributes_def AttributeInput_def Let_def)

text \<open>
  C5. For every vertex count \<open>n\<close>, \<open>get_format\<close> returns U8 exactly when \<open>n < 256\<close>, U16
  exactly when \<open>256 \<le> n < 65536\<close>, and U32 exactly when \<open>65536 \<le> n\<close>; the counts 0, 255,
  256, 65535 and 65536 select U8, U8, U16, U16 and U32.
\<close>

theorem get_format_selection:
  "(get_format n = U8 \<longleftrightarrow> n < 256)
   \<and> (get_format n = U16 \<longleftrightarrow> 256 \<le> n \<and> n < 65536)
   \<and> (get_format n = U32 \<longleftrightarrow> 65536 \<le> n)
   \<and> get_format 0 = U8 \<and> get_format 255 = U8 \<and> get_format 256 = U16
   \<and> get_format 65535 = U16 \<and> get_format 65536 = U32"
  by (simp add: get_format_def)

text \<open>
  C6. In every layout that \<open>set_up_attributes\<close> produces, each descriptor stores as its
  stride the sum of the format sizes of all descriptors of the layout, and its offset plus
  the size of its format is at most that stride, so that the offset is below the stride.
\<close>

theorem set_up_attributes_stride:
  "\<forall>a \<in> set (set_up_attributes inp).
     stride a = Some (sum_list (map (\<lambda>b. SIZES (format b)) (set_up_attributes inp)))
     \<and> (\<exists>off total. offset a = Some off \<and> stride a = Some total
           \<and> off + SIZES (format a) \<le> total \<and> off < total)"
  by (simp add: set_up_attributes_cases Let_def)

theorem set_up_attributes_stride_witness:
  "\<lparr>semantic = COLOR, format = U8VEC4, normalized = True, offset = Some 24, stride = Some 28\<rparr>
     \<in> set (set_up_attributes
         \<lparr>vertices = [[PyInt 0, PyInt 0, PyInt 0]], indices = [[PyInt 0, PyInt 0, PyInt 0]],
          index_type = ''TRIANGLES'', material = 0,
          normals = Some [[PyInt 0, PyInt 0, PyInt 1]], tangents = None, textures = None,
          colors = Some [[PyInt 1, PyInt 2, PyInt 3, PyInt 4]]\<rparr>)
   \<and> sum_list (map (\<lambda>b. SIZES (format b)) (set_up_attributes
         \<lparr>vertices = [[PyInt 0, PyInt 0, PyInt 0]], indices = [[PyInt 0, PyInt 0, PyInt 0]],
          index_type = ''TRIANGLES'', material = 0,
          normals = Some [[PyInt 0, PyInt 0, PyInt 1]], tangents = None, textures = None,
          colors = Some [[PyInt 1, PyInt 2, PyInt 3, PyInt 4]]\<rparr>)) = 28
   \<and> 24 + SIZES U8VEC4 \<le> (28 :: nat)"
  using set_up_attributes_stride [of
         "\<lparr>vertices = [[PyInt 0, PyInt 0, PyInt 0]], indices = [[PyInt 0, PyInt 0, PyInt 0]],
          index_type = ''TRIANGLES'', material = 0,
          normals = Some [[PyInt 0, PyInt 0, PyInt 1]], tangents = None, textures = None,
          colors = Some [[PyInt 1, PyInt 2, PyInt 3, PyInt 4]]\<rparr>"]
  by (simp add: set_up_attributes_cases)

text \<open>
  C8. For every combination of present streams the planner returns the descriptors in the
  order POSITION, NORMAL, TANGENT, TEXTURE, COLOR, with exactly the present ones and
  POSITION always first; POSITION, NORMAL and TANGENT have format VEC3 and are not
  normalized, TEXTURE has U16VEC2 and COLOR has U8VEC4, both normalized.
\<close>

theorem set_up_attributes_order:
  "map (\<lambda>a. (semantic a, format a, normalized a)) (set_up_attributes inp) =
     [(POSITION, VEC3, False)]
     @ (if truthy (normals inp) then [(NORMAL, VEC3, False)] else [])
     @ (if truthy (tangents inp) then [(TANGENT, VEC3, False)] else [])
     @ (if truthy (textures inp) then [(TEXTURE, U16VEC2, True)] else [])
     @ (if truthy (colors inp) then [(COLOR, U8VEC4, True)] else [])"
  by (simp add: set_up_attributes_cases Let_def)

text \<open>
  C9. \<open>create_instances\<close> with four empty lists returns exactly one instance: the groups
  position (0,0,0,0), color (1,1,1,1), rotation (0,0,0,0) and scale (1,1,1,0).
\<close>

theorem create_instances_default:
  "create_instances [] [] [] [] =
     [[PyFloat float_zero, PyFloat float_zero, PyFloat float_zero, PyFloat float_zero],
      [PyFloat float_one, PyFloat float_one, PyFloat float_one, PyFloat float_one],
      [PyFloat float_zero, PyFloat float_zero, PyFloat float_zero, PyFloat float_zero],
      [PyFloat float_one, PyFloat float_one, PyFloat float_one, PyFloat float_zero]]"
  by (simp add: create_instances_def padded_def DEFAULT_POSITION_def DEFAULT_COLOR_def
      DEFAULT_ROTATION_def DEFAULT_SCALE_def)

theorem create_instances_default_witness:
  "length (create_instances [] [] [] []) = 4
   \<and> hd (create_instances [] [] [] []) = DEFAULT_POSITION
   \<and> create_instances [] [] [] [] ! 3 = DEFAULT_SCALE"
  using create_instances_default
  by (simp add: DEFAULT_POSITION_def DEFAULT_SCALE_def)

section \<open>Bytes and elements\<close>

lemma length_le_bytes [simp]: "length (le_bytes n v) = n"
  by (simp add: le_bytes_def)

lemma le_bytes_Suc: "le_bytes (Suc n) v = word_of_nat v # le_bytes n (v div 256)"
proof -
  have "[0..<Suc n] = 0 # [Suc 0..<Suc n]"
    by (rule upt_conv_Cons) simp
  also have "[Suc 0..<Suc n] = map Suc [0..<n]"
    by (simp only: map_Suc_upt)
  finally show ?thesis
    by (simp add: le_bytes_def comp_def div_mult2_eq)
qed






lemma collect_append:
  "collect f (xs @ ys) =
     (case collect f xs of Inl e \<Rightarrow> Inl e
      | Inr a \<Rightarrow> (case collect f ys of Inl e \<Rightarrow> Inl e | Inr b \<Rightarrow> Inr (a @ b)))"
  by (induction xs) (auto split: sum.splits)

lemma decode_items_Nil [simp]: "decode_items dt [] = []"
  using itemsize_pos [of dt] by (simp add: decode_items.simps)



lemma decode_items_short: "length bs < itemsize dt \<Longrightarrow> decode_items dt bs = []"
  by (simp add: decode_items.simps)



lemma ilog2_1: "ilog2 (Suc 0) = 0" by (subst ilog2.simps) simp

lemma le_bytes_0: "le_bytes 0 v = []"
  by (simp add: le_bytes_def)

lemma le_bytes_1: "le_bytes (Suc 0) v = [word_of_nat v]"
  by (simp add: le_bytes_Suc le_bytes_0)

lemma le_bytes_2: "le_bytes 2 v = [word_of_nat v, word_of_nat (v div 256)]"
proof -
  have "le_bytes (Suc (Suc 0)) v = [word_of_nat v, word_of_nat (v div 256)]"
    by (simp add: le_bytes_Suc le_bytes_0)
  moreover have "(2 :: nat) = Suc (Suc 0)"
    by simp
  ultimately show ?thesis
    by (simp only:)
qed

lemma le_bytes_4:
  "le_bytes 4 v = [word_of_nat v, word_of_nat (v div 256), word_of_nat (v div 256 div 256),
                   word_of_nat (v div 256 div 256 div 256)]"
proof -
  have "le_bytes (Suc (Suc (Suc (Suc 0)))) v =
      [word_of_nat v, word_of_nat (v div 256), word_of_nat (v div 256 div 256),
       word_of_nat (v div 256 div 256 div 256)]"
    by (simp add: le_bytes_Suc le_bytes_0)
  moreover have "(4 :: nat) = Suc (Suc (Suc (Suc 0)))"
    by simp
  ultimately show ?thesis
    by (simp only:)
qed

lemma py_float_of_int_0: "py_float_of_int 0 = Inr 0"
  by (simp add: py_float_of_int_def)
lemma py_float_of_int_1: "py_float_of_int 1 = Inr 0x3FF0000000000000"
  by (simp add: py_float_of_int_def ilog2_1)
lemma f64_to_f32_0: "f64_to_f32 0 = 0"
  by (simp add: f64_to_f32_def round_half_even_def)
lemma f64_to_f32_1: "f64_to_f32 0x3FF0000000000000 = 0x3F800000"
  by (simp add: f64_to_f32_def round_half_even_def)

lemmas eval_encode =
  build_geometry_patch_def build_geometry_buffer_def vertex_section_def present_streams_def
  py_zip_def encode_point_def encode_attr_def np_tobytes_def np_tobytes2_def
  set_up_attributes_cases get_format_def le_bytes_1 le_bytes_2 le_bytes_4 Let_def
  py_float_of_int_0 py_float_of_int_1 f64_to_f32_0 f64_to_f32_1 upt_rec_numeral

text \<open>The triangle of the specification's scenario, encoded.\<close>

lemma tri_ex:
  "build_geometry_patch name
     \<lparr>vertices = [[PyInt 0, PyInt 0, PyInt 0], [PyInt 1, PyInt 0, PyInt 0],
                  [PyInt 0, PyInt 1, PyInt 0]],
      indices = [[PyInt 0, PyInt 1, PyInt 2]], index_type = ''TRIANGLES'', material = 0,
      normals = None, tangents = None, textures = None, colors = None\<rparr>
   = Inr (\<lparr>patch_attributes =
         [\<lparr>semantic = POSITION, format = VEC3, normalized = False,
             offset = Some 0, stride = Some 12\<rparr>],
         vertex_count = 3,
         patch_indices = \<lparr>ix_count = 3, ix_offset = 36, ix_format = U8\<rparr>,
         patch_type = ''TRIANGLES'', patch_material = 0\<rparr>,
      \<lparr>buffer_name = name, buffer_size = 39,
         inline_bytes =
           [0, 0, 0, 0, 0, 0, 0, 0, 0, 0, 0, 0, 0, 0, 128, 63, 0, 0, 0, 0,
            0, 0, 0, 0, 0, 0, 0, 0, 0, 0, 128, 63, 0, 0, 0, 0, 0, 1, 2]\<rparr>)"
  by (simp add: eval_encode)

section \<open>Signed index types\<close>










section \<open>The index descriptor\<close>

lemma build_geometry_buffer_Inr:
  assumes "build_geometry_buffer name inp fmt attrs = Inr (buf, off)"
  shows "\<exists>vb ib. vertex_section inp attrs = Inr vb
           \<and> np_tobytes2 (FORMAT_MAP fmt) (indices inp) = Inr ib
           \<and> buf = \<lparr>buffer_name = name, buffer_size = length (vb @ ib), inline_bytes = vb @ ib\<rparr>
           \<and> off = length vb"
  using assms
  by (auto simp: build_geometry_buffer_def Let_def split: sum.splits if_splits)

lemma build_geometry_patch_Inr:
  assumes "build_geometry_patch name inp = Inr (patch, buf)"
  shows "\<exists>vb ib. indices inp \<noteq> []
           \<and> vertex_section inp (set_up_attributes inp) = Inr vb
           \<and> np_tobytes2 (FORMAT_MAP (get_format (int (length (vertices inp))))) (indices inp) = Inr ib
           \<and> buf = \<lparr>buffer_name = name, buffer_size = length (vb @ ib), inline_bytes = vb @ ib\<rparr>
           \<and> patch = \<lparr>patch_attributes = set_up_attributes inp,
                       vertex_count = length (vertices inp),
                       patch_indices = \<lparr>ix_count = length (indices inp) * length (hd (indices inp)),
                                         ix_offset = length vb,
                                         ix_format = get_format (int (length (vertices inp)))\<rparr>,
                       patch_type = index_type inp, patch_material = material inp\<rparr>"
proof (cases "indices inp")
  case Nil
  with assms show ?thesis
    by (simp add: build_geometry_patch_def)
next
  case (Cons g gs)
  let ?fmt = "get_format (int (length (vertices inp)))"
  from assms Cons obtain off where
    b: "build_geometry_buffer name inp ?fmt (set_up_attributes inp) = Inr (buf, off)"
    and p: "patch = \<lparr>patch_attributes = set_up_attributes inp,
                       vertex_count = length (vertices inp),
                       patch_indices = \<lparr>ix_count = length (indices inp) * length g,
                                         ix_offset = off, ix_format = ?fmt\<rparr>,
                       patch_type = index_type inp, patch_material = material inp\<rparr>"
    by (auto simp: build_geometry_patch_def Let_def split: sum.splits)
  from build_geometry_buffer_Inr [OF b] p Cons show ?thesis
    by auto
qed

text \<open>
  C7. After a successful \<open>build_geometry_patch\<close> the buffer is the vertex section followed
  by the index bytes, the index offset is the length of the vertex section, and the index
  count is \<open>len(indices) * len(indices[0])\<close>. For the three positions (0,0,0), (1,0,0),
  (0,1,0) with indices [[0,1,2]] the offset is 36 and the buffer has 39 bytes.
\<close>

theorem index_descriptor_offset_count:
  "(build_geometry_patch name inp = Inr (patch, buf) \<longrightarrow>
      (\<exists>vb ib. vertex_section inp (set_up_attributes inp) = Inr vb
         \<and> np_tobytes2 (FORMAT_MAP (get_format (int (length (vertices inp))))) (indices inp) = Inr ib
         \<and> inline_bytes buf = vb @ ib
         \<and> buffer_size buf = length vb + length ib
         \<and> ix_offset (patch_indices patch) = length vb
         \<and> ix_count (patch_indices patch) = length (indices inp) * length (hd (indices inp))))
   \<and> (\<exists>patch buf.
        build_geometry_patch name
          \<lparr>vertices = [[PyInt 0, PyInt 0, PyInt 0], [PyInt 1, PyInt 0, PyInt 0],
                       [PyInt 0, PyInt 1, PyInt 0]],
           indices = [[PyInt 0, PyInt 1, PyInt 2]], index_type = ''TRIANGLES'', material = 0,
           normals = None, tangents = None, textures = None, colors = None\<rparr>
          = Inr (patch, buf)
        \<and> ix_offset (patch_indices patch) = 36
        \<and> length (inline_bytes buf) = 39 \<and> buffer_size buf = 39)"
proof (intro conjI impI)
  assume "build_geometry_patch name inp = Inr (patch, buf)"
  from build_geometry_patch_Inr [OF this]
  show "\<exists>vb ib. vertex_section inp (set_up_attributes inp) = Inr vb
         \<and> np_tobytes2 (FORMAT_MAP (get_format (int (length (vertices inp))))) (indices inp) = Inr ib
         \<and> inline_bytes buf = vb @ ib
         \<and> buffer_size buf = length vb + length ib
         \<and> ix_offset (patch_indices patch) = length vb
         \<and> ix_count (patch_indices patch) = length (indices inp) * length (hd (indices inp))"
    by auto
next
  show "\<exists>patch buf.
        build_geometry_patch name
          \<lparr>vertices = [[PyInt 0, PyInt 0, PyInt 0], [PyInt 1, PyInt 0, PyInt 0],
                       [PyInt 0, PyInt 1, PyInt 0]],
           indices = [[PyInt 0, PyInt 1, PyInt 2]], index_type = ''TRIANGLES'', material = 0,
           normals = None, tangents = None, textures = None, colors = None\<rparr>
          = Inr (patch, buf)
        \<and> ix_offset (patch_indices patch) = 36
        \<and> length (inline_bytes buf) = 39 \<and> buffer_size buf = 39"
    by (simp add: tri_ex)
qed

theorem index_descriptor_offset_count_witness:
  "\<exists>vb ib. vertex_section
         \<lparr>vertices = [[PyFloat float_zero, PyFloat float_zero, PyFloat float_one]],
          indices = [[PyInt 0, PyInt 0]], index_type = ''LINES'', material = 0,
          normals = None, tangents = None, textures = None, colors = None\<rparr>
         [\<lparr>semantic = POSITION, format = VEC3, normalized = False,
           offset = Some 0, stride = Some 12\<rparr>] = Inr vb
     \<and> np_tobytes2 Int8 [[PyInt 0, PyInt 0]] = Inr ib
     \<and> length vb = 12 \<and> length ib = 2"
  using index_descriptor_offset_count [of "''line''"
         "\<lparr>vertices = [[PyFloat float_zero, PyFloat float_zero, PyFloat float_one]],
          indices = [[PyInt 0, PyInt 0]], index_type = ''LINES'', material = 0,
          normals = None, tangents = None, textures = None, colors = None\<rparr>"
         "\<lparr>patch_attributes =
            [\<lparr>semantic = POSITION, format = VEC3, normalized = False,
              offset = Some 0, stride = Some 12\<rparr>],
           vertex_count = 1,
           patch_indices = \<lparr>ix_count = 2, ix_offset = 12, ix_format = U8\<rparr>,
           patch_type = ''LINES'', patch_material = 0\<rparr>"
         "\<lparr>buffer_name = ''line'', buffer_size = 14,
           inline_bytes = [0, 0, 0, 0, 0, 0, 0, 0, 0, 0, 128, 63, 0, 0]\<rparr>"]
  by (simp add: eval_encode float_zero_def float_one_def)

section \<open>Streams of unequal length\<close>

lemma stream_map_option: "stream (map_option (take k) s) = take k (stream s)"
  by (cases s) simp_all

lemma shortest_pos:
  assumes "data \<noteq> []" and "\<forall>xs \<in> set data. xs \<noteq> []"
  shows "0 < shortest data"
proof -
  have "Min (set (map length data)) \<in> set (map length data)"
    using assms(1) by (intro Min_in) simp_all
  then show ?thesis
    using assms by (auto simp: shortest_def)
qed

lemma shortest_le: "xs \<in> set data \<Longrightarrow> shortest data \<le> length xs"
  by (auto simp: shortest_def)

lemma shortest_take:
  "shortest (map (take (shortest data)) data) = shortest data"
proof (cases "data = []")
  case True
  then show ?thesis by (simp add: shortest_def)
next
  case False
  have "map length (map (take (shortest data)) data) = map (\<lambda>_. shortest data) data"
    by (simp add: min_absorb2 shortest_le)
  then have "set (map length (map (take (shortest data)) data)) = {shortest data}"
    using False by (cases data) auto
  then show ?thesis
    using False by (simp add: shortest_def)
qed

lemma py_zip_shortest: "py_zip data = map (\<lambda>i. map (\<lambda>xs. xs ! i) data) [0..<shortest data]"
  by (simp add: py_zip_def shortest_def)

lemma py_zip_take: "py_zip (map (take (shortest data)) data) = py_zip data"
  by (simp add: py_zip_shortest shortest_take comp_def)

lemma present_streams_truncate:
  "present_streams (truncate_streams (shortest (present_streams inp)) inp)
     = map (take (shortest (present_streams inp))) (present_streams inp)"
proof (cases "present_streams inp = []")
  case True
  then show ?thesis
    by (auto simp: present_streams_def truncate_streams_def stream_map_option
        split: if_splits)
next
  case False
  have "\<forall>xs \<in> set (present_streams inp). xs \<noteq> []"
    by (simp add: present_streams_def)
  with False have pos: "0 < shortest (present_streams inp)"
    by (rule shortest_pos)
  then have "\<And>x :: pynum list list. (take (shortest (present_streams inp)) x \<noteq> []) = (x \<noteq> [])"
    by simp
  then show ?thesis
    unfolding present_streams_def [of "truncate_streams _ _"]
    by (simp add: truncate_streams_def stream_map_option present_streams_def [of inp, symmetric])
       (simp add: present_streams_def)
qed

lemma vertex_section_truncate:
  "vertex_section (truncate_streams (shortest (present_streams inp)) inp) attrs
     = vertex_section inp attrs"
  by (simp add: vertex_section_def present_streams_truncate py_zip_take)

lemma collect_Inl_D: "collect f xs = Inl e \<Longrightarrow> \<exists>x \<in> set xs. f x = Inl e"
  by (induction xs) (auto split: sum.splits)

lemma py_int_of_float_error:
  "py_int_of_float d = Inl e \<Longrightarrow> e = ValueError \<or> e = OverflowError"
  by (auto simp: py_int_of_float_def Let_def split: if_splits)

lemma to_long_error: "to_long x = Inl e \<Longrightarrow> e = ValueError \<or> e = OverflowError"
  by (cases x) (auto split: sum.splits if_splits dest: py_int_of_float_error)

lemma to_double_error: "to_double x = Inl e \<Longrightarrow> e = OverflowError"
  by (cases x) (auto simp: py_float_of_int_def Let_def split: if_splits)

lemma item_bytes_error: "item_bytes dt x = Inl e \<Longrightarrow> e = ValueError \<or> e = OverflowError"
  by (cases dt) (auto split: sum.splits dest: to_long_error to_double_error)

lemma np_tobytes_error: "np_tobytes dt info = Inl e \<Longrightarrow> e = ValueError \<or> e = OverflowError"
  unfolding np_tobytes_def by (auto dest!: collect_Inl_D item_bytes_error)

lemma np_tobytes2_error: "np_tobytes2 dt groups = Inl e \<Longrightarrow> e = ValueError \<or> e = OverflowError"
  unfolding np_tobytes2_def by (auto split: if_splits dest!: collect_Inl_D item_bytes_error)

lemma vertex_section_error:
  "vertex_section inp attrs = Inl e \<Longrightarrow> e = ValueError \<or> e = OverflowError"
  unfolding vertex_section_def Let_def encode_point_def encode_attr_def
  by (auto dest!: collect_Inl_D np_tobytes_error)

lemma build_geometry_buffer_error:
  "build_geometry_buffer name inp fmt attrs = Inl e \<Longrightarrow> e = ValueError \<or> e = OverflowError"
  unfolding build_geometry_buffer_def Let_def
  by (auto split: sum.splits if_splits dest: vertex_section_error np_tobytes2_error)

text \<open>
  C2, as the code has it. \<open>build_geometry_buffer\<close> never fails with ShapeMismatch. Streams
  of unequal length are paired up to the shortest non-empty stream: the result is that of
  the input with every per-vertex stream cut to that length.
\<close>

theorem mismatched_streams_truncated:
  "build_geometry_buffer name inp fmt attrs \<noteq> Inl ShapeMismatch
   \<and> build_geometry_buffer name
         (truncate_streams (shortest (present_streams inp)) inp) fmt attrs
       = build_geometry_buffer name inp fmt attrs"
proof
  show "build_geometry_buffer name inp fmt attrs \<noteq> Inl ShapeMismatch"
    using build_geometry_buffer_error [of name inp fmt attrs ShapeMismatch] by auto
next
  have ix: "indices (truncate_streams (shortest (present_streams inp)) inp) = indices inp"
    by (simp add: truncate_streams_def)
  show "build_geometry_buffer name
         (truncate_streams (shortest (present_streams inp)) inp) fmt attrs
       = build_geometry_buffer name inp fmt attrs"
    unfolding build_geometry_buffer_def vertex_section_truncate ix
    by (rule refl)
qed


lemma f64_to_f32_float_zero: "f64_to_f32 float_zero = 0"
  by (simp add: float_zero_def f64_to_f32_0)

lemma f64_to_f32_float_one: "f64_to_f32 float_one = 0x3F800000"
  by (simp add: float_one_def f64_to_f32_1)

lemmas eval_buffer =
  build_geometry_buffer_def vertex_section_def present_streams_def
  py_zip_def encode_point_def encode_attr_def np_tobytes_def np_tobytes2_def
  set_up_attributes_cases le_bytes_1 le_bytes_2 le_bytes_4 Let_def
  f64_to_f32_float_zero f64_to_f32_float_one upt_rec_numeral

text \<open>
  Two positions with one normal: the encoder returns a buffer with one vertex record of
  24 bytes, the second position is dropped, and no error is raised.
\<close>

theorem shape_mismatch_counterexample:
  "build_geometry_buffer ''m''
     \<lparr>vertices = [[PyFloat float_zero, PyFloat float_zero, PyFloat float_zero],
                  [PyFloat float_one, PyFloat float_zero, PyFloat float_zero]],
      indices = [[PyInt 0, PyInt 1, PyInt 0]], index_type = ''TRIANGLES'', material = 0,
      normals = Some [[PyFloat float_zero, PyFloat float_zero, PyFloat float_one]],
      tangents = None, textures = None, colors = None\<rparr>
     U8
     [\<lparr>semantic = POSITION, format = VEC3, normalized = False,
        offset = Some 0, stride = Some 24\<rparr>,
      \<lparr>semantic = NORMAL, format = VEC3, normalized = False,
        offset = Some 12, stride = Some 24\<rparr>]
   = Inr (\<lparr>buffer_name = ''m'', buffer_size = 27,
           inline_bytes = [0, 0, 0, 0, 0, 0, 0, 0, 0, 0, 0, 0,
                           0, 0, 0, 0, 0, 0, 0, 0, 0, 0, 128, 63,
                           0, 1, 0]\<rparr>, 24)"
  by (simp add: eval_buffer)

theorem mismatched_streams_truncated_witness:
  "shortest (present_streams
     \<lparr>vertices = [[PyFloat float_zero, PyFloat float_zero, PyFloat float_zero],
                  [PyFloat float_one, PyFloat float_zero, PyFloat float_zero]],
      indices = [[PyInt 0, PyInt 1, PyInt 0]], index_type = ''TRIANGLES'', material = 0,
      normals = Some [[PyFloat float_zero, PyFloat float_zero, PyFloat float_one]],
      tangents = None, textures = None, colors = None\<rparr>) = 1
   \<and> build_geometry_buffer ''m''
       (truncate_streams 1
         \<lparr>vertices = [[PyFloat float_zero, PyFloat float_zero, PyFloat float_zero],
                      [PyFloat float_one, PyFloat float_zero, PyFloat float_zero]],
          indices = [[PyInt 0, PyInt 1, PyInt 0]], index_type = ''TRIANGLES'', material = 0,
          normals = Some [[PyFloat float_zero, PyFloat float_zero, PyFloat float_one]],
          tangents = None, textures = None, colors = None\<rparr>)
       U8
         [\<lparr>semantic = POSITION, format = VEC3, normalized = False,
            offset = Some 0, stride = Some 24\<rparr>,
          \<lparr>semantic = NORMAL, format = VEC3, normalized = False,
            offset = Some 12, stride = Some 24\<rparr>]
       = Inr (\<lparr>buffer_name = ''m'', buffer_size = 27,
           inline_bytes = [0, 0, 0, 0, 0, 0, 0, 0, 0, 0, 0, 0,
                           0, 0, 0, 0, 0, 0, 0, 0, 0, 0, 128, 63,
                           0, 1, 0]\<rparr>, 24)
   \<and> build_geometry_buffer ''m''
         \<lparr>vertices = [[PyFloat float_zero, PyFloat float_zero, PyFloat float_zero],
                      [PyFloat float_one, PyFloat float_zero, PyFloat float_zero]],
          indices = [[PyInt 0, PyInt 1, PyInt 0]], index_type = ''TRIANGLES'', material = 0,
          normals = Some [[PyFloat float_zero, PyFloat float_zero, PyFloat float_one]],
          tangents = None, textures = None, colors = None\<rparr>
       U8
         [\<lparr>semantic = POSITION, format = VEC3, normalized = False,
            offset = Some 0, stride = Some 24\<rparr>,
          \<lparr>semantic = NORMAL, format = VEC3, normalized = False,
            offset = Some 12, stride = Some 24\<rparr>] \<noteq> Inl ShapeMismatch"
  using mismatched_streams_truncated [of "''m''"
         "\<lparr>vertices = [[PyFloat float_zero, PyFloat float_zero, PyFloat float_zero],
                      [PyFloat float_one, PyFloat float_zero, PyFloat float_zero]],
          indices = [[PyInt 0, PyInt 1, PyInt 0]], index_type = ''TRIANGLES'', material = 0,
          normals = Some [[PyFloat float_zero, PyFloat float_zero, PyFloat float_one]],
          tangents = None, textures = None, colors = None\<rparr>" U8
         "[\<lparr>semantic = POSITION, format = VEC3, normalized = False,
            offset = Some 0, stride = Some 24\<rparr>,
          \<lparr>semantic = NORMAL, format = VEC3, normalized = False,
            offset = Some 12, stride = Some 24\<rparr>]"]
  by (simp add: eval_buffer shortest_def truncate_streams_def)

section \<open>Empty input\<close>







section \<open>Decoder failures\<close>

lemma SIZES_pos: "0 < SIZES f"
  by (cases f) simp_all

lemma np_frombuffer_error: "np_frombuffer bs dt c off = Inl e \<Longrightarrow> e = ValueError"
  by (auto simp: np_frombuffer_def Let_def split: if_splits)

lemma np_frombuffer_out_of_range:
  "length bs < off + n * itemsize dt \<Longrightarrow> np_frombuffer bs dt (int n) off = Inl ValueError"
  by (auto simp: np_frombuffer_def Let_def)

lemma read_attribute_error: "read_attribute a bs st = Inl e \<Longrightarrow> e = ValueError"
  by (auto simp: read_attribute_def Let_def split: prod.splits sum.splits
      dest: np_frombuffer_error)

lemma read_attribute_advance:
  "read_attribute a bs st = Inr st' \<Longrightarrow> fst st' = fst st + SIZES (format a)"
  by (auto simp: read_attribute_def Let_def split: prod.splits sum.splits)

lemma read_attribute_triangles:
  "read_attribute a bs st = Inr st' \<Longrightarrow> triangles (snd st') = triangles (snd st)"
  by (auto simp: read_attribute_def Let_def split: prod.splits sum.splits if_splits)

lemma read_record_error: "read_record attrs bs st = Inl e \<Longrightarrow> e = ValueError"
  by (induction attrs arbitrary: st) (auto split: sum.splits dest: read_attribute_error)

lemma read_record_advance:
  "read_record attrs bs st = Inr st' \<Longrightarrow>
     fst st' = fst st + sum_list (map (\<lambda>a. SIZES (format a)) attrs)"
proof (induction attrs arbitrary: st)
  case Nil
  then show ?case by simp
next
  case (Cons a attrs)
  from Cons.prems obtain st1 where a: "read_attribute a bs st = Inr st1"
    and r: "read_record attrs bs st1 = Inr st'"
    by (auto split: sum.splits)
  from Cons.IH [OF r] read_attribute_advance [OF a] show ?case
    by simp
qed

lemma read_record_triangles:
  "read_record attrs bs st = Inr st' \<Longrightarrow> triangles (snd st') = triangles (snd st)"
proof (induction attrs arbitrary: st)
  case Nil
  then show ?case by simp
next
  case (Cons a attrs)
  from Cons.prems obtain st1 where a: "read_attribute a bs st = Inr st1"
    and r: "read_record attrs bs st1 = Inr st'"
    by (auto split: sum.splits)
  from Cons.IH [OF r] read_attribute_triangles [OF a] show ?case
    by simp
qed

lemma read_records_error_aux:
  assumes "read_records attrs0 bs0 st0 = Some r0"
  shows "\<forall>e. r0 = Inl e \<longrightarrow> e = ValueError"
proof (rule read_records.raw_induct
    [where P = "\<lambda>attrs bs st r. \<forall>e. r = Inl e \<longrightarrow> e = ValueError", OF _ assms])
  fix rr :: "attribute_input list \<Rightarrow> byte list \<Rightarrow> nat \<times> mesh_data \<Rightarrow> (error + mesh_data) option"
    and attrs bs st r
  assume IH: "\<And>attrs bs st r. rr attrs bs st = Some r \<Longrightarrow> \<forall>e. r = Inl e \<longrightarrow> e = ValueError"
    and body: "(if fst st < length bs
                then case read_record attrs bs st of Inl e \<Rightarrow> Some (Inl e)
                     | Inr st' \<Rightarrow> rr attrs bs st'
                else Some (Inr (snd st))) = Some r"
  show "\<forall>e. r = Inl e \<longrightarrow> e = ValueError"
  proof (cases "fst st < length bs")
    case True
    show ?thesis
    proof (cases "read_record attrs bs st")
      case (Inl e')
      with True body have "r = Inl e'"
        by simp
      with read_record_error [OF Inl] show ?thesis
        by simp
    next
      case (Inr st')
      with True body have "rr attrs bs st' = Some r"
        by simp
      then show ?thesis
        by (rule IH)
    qed
  next
    case False
    with body show ?thesis
      by auto
  qed
qed

lemma read_records_error: "read_records attrs bs st = Some (Inl e) \<Longrightarrow> e = ValueError"
  using read_records_error_aux by blast

lemma read_records_triangles_aux:
  assumes "read_records attrs0 bs0 st0 = Some r0"
  shows "\<forall>m'. r0 = Inr m' \<longrightarrow> triangles m' = triangles (snd st0)"
proof (rule read_records.raw_induct
    [where P = "\<lambda>attrs bs st r. \<forall>m'. r = Inr m' \<longrightarrow> triangles m' = triangles (snd st)",
      OF _ assms])
  fix rr :: "attribute_input list \<Rightarrow> byte list \<Rightarrow> nat \<times> mesh_data \<Rightarrow> (error + mesh_data) option"
    and attrs bs st r
  assume IH: "\<And>attrs bs st r. rr attrs bs st = Some r \<Longrightarrow>
                 \<forall>m'. r = Inr m' \<longrightarrow> triangles m' = triangles (snd st)"
    and body: "(if fst st < length bs
                then case read_record attrs bs st of Inl e \<Rightarrow> Some (Inl e)
                     | Inr st' \<Rightarrow> rr attrs bs st'
                else Some (Inr (snd st))) = Some r"
  show "\<forall>m'. r = Inr m' \<longrightarrow> triangles m' = triangles (snd st)"
  proof (cases "fst st < length bs")
    case True
    show ?thesis
    proof (cases "read_record attrs bs st")
      case (Inl e')
      with True body have "r = Inl e'"
        by simp
      then show ?thesis
        by simp
    next
      case (Inr st')
      with True body have "rr attrs bs st' = Some r"
        by simp
      from IH [OF this] read_record_triangles [OF Inr] show ?thesis
        by simp
    qed
  next
    case False
    with body show ?thesis
      by auto
  qed
qed

lemma read_records_triangles:
  "read_records attrs bs st = Some (Inr m') \<Longrightarrow> triangles m' = triangles (snd st)"
  using read_records_triangles_aux by blast

lemma read_records_terminates:
  assumes "attrs \<noteq> []"
  shows "\<exists>r. read_records attrs bs st = Some r"
proof (induction "length bs - fst st" arbitrary: st rule: less_induct)
  case less
  show ?case
  proof (cases "fst st < length bs")
    case False
    then show ?thesis
      by (subst read_records.simps) simp
  next
    case True
    show ?thesis
    proof (cases "read_record attrs bs st")
      case (Inl e)
      with True show ?thesis
        by (subst read_records.simps) simp
    next
      case (Inr st')
      from assms obtain a as where "attrs = a # as"
        by (cases attrs) auto
      then have "0 < sum_list (map (\<lambda>a. SIZES (format a)) attrs)"
        using SIZES_pos [of "format a"] by simp
      with read_record_advance [OF Inr] True have "length bs - fst st' < length bs - fst st"
        by simp
      from less [OF this] obtain r where "read_records attrs bs st' = Some r" ..
      with True Inr show ?thesis
        by (subst read_records.simps) simp
    qed
  qed
qed

text \<open>
  C4, as the code has it. When the index byte range (offset plus count times the element
  size of the index type) exceeds the buffer, decoding a patch fails with the ValueError of
  \<^verbatim>\<open>np.frombuffer\<close>. No decoding fails with CorruptBuffer. A patch with at least one
  attribute is always decoded to a result or an error: the loop over the vertex section
  ends.
\<close>

theorem decoder_failures:
  "(length bytes < ix_offset (patch_indices patch)
        + ix_count (patch_indices patch) * itemsize (FORMAT_MAP (ix_format (patch_indices patch)))
      \<longrightarrow> export_patch (patch, bytes) m = Some (Inl ValueError))
   \<and> export_patch (patch, bytes) m \<noteq> Some (Inl CorruptBuffer)
   \<and> (patch_attributes patch \<noteq> [] \<longrightarrow> (\<exists>r. export_patch (patch, bytes) m = Some r))"
proof (intro conjI impI)
  assume "length bytes < ix_offset (patch_indices patch)
        + ix_count (patch_indices patch) * itemsize (FORMAT_MAP (ix_format (patch_indices patch)))"
  then show "export_patch (patch, bytes) m = Some (Inl ValueError)"
    by (simp add: export_patch_def Let_def np_frombuffer_out_of_range)
next
  show "export_patch (patch, bytes) m \<noteq> Some (Inl CorruptBuffer)"
  proof
    assume a: "export_patch (patch, bytes) m = Some (Inl CorruptBuffer)"
    show False
    proof (cases "np_frombuffer bytes (FORMAT_MAP (ix_format (patch_indices patch)))
                   (int (ix_count (patch_indices patch))) (ix_offset (patch_indices patch))")
      case (Inl e)
      with a np_frombuffer_error [OF Inl] show False
        by (simp add: export_patch_def Let_def)
    next
      case (Inr raw)
      with a have "\<exists>st. read_records (patch_attributes patch)
          (take (ix_offset (patch_indices patch)) bytes) st = Some (Inl CorruptBuffer)"
        by (auto simp: export_patch_def Let_def)
      then show False
        using read_records_error by blast
    qed
  qed
next
  assume ne: "patch_attributes patch \<noteq> []"
  show "\<exists>r. export_patch (patch, bytes) m = Some r"
  proof (cases "np_frombuffer bytes (FORMAT_MAP (ix_format (patch_indices patch)))
                   (int (ix_count (patch_indices patch))) (ix_offset (patch_indices patch))")
    case (Inl e)
    then show ?thesis
      by (simp add: export_patch_def Let_def)
  next
    case (Inr raw)
    then show ?thesis
      using read_records_terminates [OF ne]
      by (simp add: export_patch_def Let_def)
  qed
qed

lemma f32_to_f64_0: "f32_to_f64 0 = 0"
  by (simp add: f32_to_f64_def)

lemma decode_items_12_zero:
  "decode_items Single [0, 0, 0, 0, 0, 0, 0, 0, 0, 0, 0, 0]
     = [PyFloat 0, PyFloat 0, PyFloat 0]"
  by (simp add: decode_items.simps f32_to_f64_0)

lemma decode_items_3_zero:
  "decode_items Int8 [0, 0, 0] = [PyInt 0, PyInt 0, PyInt 0]"
  by (simp add: decode_items.simps signed_of_def)

text \<open>
  A layout of stride 16 (position and colour) over a vertex section of 12 bytes: the
  position is read, the colour chunk is empty and decodes to an empty tuple, and the
  decoder returns a mesh.
\<close>

theorem corrupt_buffer_counterexample:
  "export_patch
     (\<lparr>patch_attributes =
         [\<lparr>semantic = POSITION, format = VEC3, normalized = False,
            offset = Some 0, stride = Some 16\<rparr>,
          \<lparr>semantic = COLOR, format = U8VEC4, normalized = True,
            offset = Some 12, stride = Some 16\<rparr>],
       vertex_count = 1,
       patch_indices = \<lparr>ix_count = 3, ix_offset = 12, ix_format = U8\<rparr>,
       patch_type = ''TRIANGLES'', patch_material = 0\<rparr>,
      [0, 0, 0, 0, 0, 0, 0, 0, 0, 0, 0, 0, 0, 0, 0])
     \<lparr>points = [], triangles = [], point_data = Map.empty\<rparr>
   = Some (Inr \<lparr>points = [[PyFloat 0, PyFloat 0, PyFloat 0]],
                triangles = [[PyInt 0, PyInt 0, PyInt 0]],
                point_data = [COLOR \<mapsto> [[]]]\<rparr>)"
  by (simp add: export_patch_def np_frombuffer_def read_records.simps read_attribute_def
      decode_items_12_zero decode_items_3_zero Let_def)

theorem decoder_failures_witness:
  "export_patch
     (\<lparr>patch_attributes =
         [\<lparr>semantic = POSITION, format = VEC3, normalized = False,
            offset = Some 0, stride = Some 12\<rparr>],
       vertex_count = 1,
       patch_indices = \<lparr>ix_count = 6, ix_offset = 12, ix_format = U8\<rparr>,
       patch_type = ''TRIANGLES'', patch_material = 0\<rparr>,
      [0, 0, 0, 0, 0, 0, 0, 0, 0, 0, 0, 0, 0, 0, 0])
     \<lparr>points = [], triangles = [], point_data = Map.empty\<rparr>
   = Some (Inl ValueError)"
  using decoder_failures [of "[0, 0, 0, 0, 0, 0, 0, 0, 0, 0, 0, 0, 0, 0, 0]"
     "\<lparr>patch_attributes =
         [\<lparr>semantic = POSITION, format = VEC3, normalized = False,
            offset = Some 0, stride = Some 12\<rparr>],
       vertex_count = 1,
       patch_indices = \<lparr>ix_count = 6, ix_offset = 12, ix_format = U8\<rparr>,
       patch_type = ''TRIANGLES'', patch_material = 0\<rparr>"
     "\<lparr>points = [], triangles = [], point_data = Map.empty\<rparr>"]
  by simp

section \<open>Round trip\<close>




















































end
